theory Spec2Isabelle
  imports Complex_Main
begin

section \<open>The Causal Effect VAE of pyro.contrib.cevae\<close>

text \<open>
  A shallow embedding of \<^verbatim>\<open>pyro/contrib/cevae/__init__.py\<close>. Python values that the
  code inspects dynamically are a datatype, exceptions are the left summand of a sum
  type, and tensors are lists of reals (a vector) or lists of rows (a matrix). The
  numbers of the networks and of the densities are idealised as reals; the two losses
  of the training objective, a Python float and a single-precision tensor, are rounded
  as the floating-point formats round.
\<close>

subsection \<open>Python values and exceptions\<close>

datatype pyval = PyInt int | PyBool bool | PyFloat real | PyStr string | PyNone

datatype error =
    ValueError string pyval
  | TypeError
  | AssertionError
  | IndexError
  | KeyError string
  | RuntimeError
  | ZeroDivisionError


fun py_int :: "pyval \<Rightarrow> int" where
  "py_int (PyInt i) = i"
| "py_int (PyBool b) = (if b then 1 else 0)"
| "py_int v = 0"

subsection \<open>Network construction\<close>















subsection \<open>CEVAE construction\<close>






subsection \<open>Preconditions of fit\<close>

text \<open>
  The start of \<^verbatim>\<open>CEVAE.fit\<close>, on the shapes of the tensors: its three assertions
  (\<^verbatim>\<open>shape[:1]\<close> is \<open>take 1\<close>), then \<^verbatim>\<open>TensorDataset(x, t, y)\<close>, torch's, which
  asserts that every tensor has the first tensor's \<^verbatim>\<open>size(0)\<close>; \<^verbatim>\<open>size(0)\<close> of a
  tensor without dimensions raises IndexError. What follows (the data loader and the
  optimisation loop) is the parameter \<open>train\<close>.
\<close>

definition fit_asserts :: "pyval \<Rightarrow> nat list \<Rightarrow> nat list \<Rightarrow> nat list \<Rightarrow> error + unit" where
  "fit_asserts self_feature_dim x t y =
     (if \<not> (length x = 2 \<and> int (last x) = py_int self_feature_dim) then Inl AssertionError
      else if \<not> (t = take 1 x) then Inl AssertionError
      else if \<not> (y = take 1 y) then Inl AssertionError
      else Inr ())"

fun tensor_size0 :: "nat list \<Rightarrow> error + nat" where
  "tensor_size0 [] = Inl IndexError"
| "tensor_size0 (d # shape) = Inr d"

fun sizes_match :: "nat list list \<Rightarrow> nat list list \<Rightarrow> error + unit" where
  "sizes_match tensors [] = Inr ()"
| "sizes_match tensors (tensor # rest) =
     (case tensors of
        [] \<Rightarrow> Inl IndexError
      | first # others \<Rightarrow>
          (case tensor_size0 first of
             Inl e \<Rightarrow> Inl e
           | Inr a \<Rightarrow>
               (case tensor_size0 tensor of
                  Inl e \<Rightarrow> Inl e
                | Inr b \<Rightarrow> if a = b then sizes_match tensors rest else Inl AssertionError)))"

definition TensorDataset_init :: "nat list list \<Rightarrow> error + unit" where
  "TensorDataset_init tensors = sizes_match tensors tensors"

definition CEVAE_fit ::
  "(nat list \<Rightarrow> nat list \<Rightarrow> nat list \<Rightarrow> error + 'l) \<Rightarrow> pyval \<Rightarrow>
     nat list \<Rightarrow> nat list \<Rightarrow> nat list \<Rightarrow> error + 'l" where
  "CEVAE_fit train self_feature_dim x t y =
     (case fit_asserts self_feature_dim x t y of
        Inl e \<Rightarrow> Inl e
      | Inr _ \<Rightarrow>
          (case TensorDataset_init [x, t, y] of
             Inl e \<Rightarrow> Inl e
           | Inr _ \<Rightarrow> train x t y))"

subsection \<open>Conditional distribution networks\<close>

text \<open>
  A forward pass is parametrised by the function its fully connected backbone computes
  on one row (the learned affine maps are torch's); a batch is a list of rows, and the
  backbone acts on each row. \<^verbatim>\<open>softplus\<close> is torch's, with its defaults: the identity
  above the threshold 20. \<^verbatim>\<open>clamp(min=m)\<close> is the larger of the value and \<open>m\<close>.
\<close>

definition softplus :: "real \<Rightarrow> real" where
  "softplus v = (if 20 < v then v else ln (1 + exp v))"

definition clamp_min :: "real \<Rightarrow> real \<Rightarrow> real" where
  "clamp_min m v = max v m"

definition DiagNormalNet_forward_row ::
  "(real list \<Rightarrow> real list) \<Rightarrow> real list \<Rightarrow> real list \<times> real list" where
  "DiagNormalNet_forward_row fc x =
     (let loc_scale = fc x;
          d = length loc_scale div 2;
          loc = take d loc_scale;
          scale = map (\<lambda>v. clamp_min (1 / 10 ^ 10) (softplus v)) (drop d loc_scale)
      in (loc, scale))"

definition DiagNormalNet_forward ::
  "(real list \<Rightarrow> real list) \<Rightarrow> real list list \<Rightarrow> real list list \<times> real list list" where
  "DiagNormalNet_forward fc x =
     (map (\<lambda>row. fst (DiagNormalNet_forward_row fc row)) x,
      map (\<lambda>row. snd (DiagNormalNet_forward_row fc row)) x)"

text \<open>
  \<^verbatim>\<open>BernoulliNet.forward\<close>: the backbone ends in a layer of width one and
  \<^verbatim>\<open>squeeze(-1)\<close> drops that dimension, so the net gives one logit per row.
\<close>

definition BernoulliNet_forward :: "(real list \<Rightarrow> real) \<Rightarrow> real list list \<Rightarrow> real list" where
  "BernoulliNet_forward fc x = map fc x"

subsection \<open>Element-wise selection\<close>

text \<open>
  \<^verbatim>\<open>torch.where\<close> on vectors, with torch's broadcasting: two lengths are compatible when
  they agree or one of them is 1; incompatible lengths raise a RuntimeError.
\<close>

definition broadcast_len :: "nat \<Rightarrow> nat \<Rightarrow> nat option" where
  "broadcast_len a b =
     (if a = b then Some a else if a = 1 then Some b else if b = 1 then Some a else None)"

definition expand_to :: "nat \<Rightarrow> 'a list \<Rightarrow> 'a list" where
  "expand_to n xs = (if length xs = n then xs else concat (replicate n xs))"

definition torch_where :: "bool list \<Rightarrow> real list \<Rightarrow> real list \<Rightarrow> error + real list" where
  "torch_where c a b =
     (case broadcast_len (length c) (length a) of
        None \<Rightarrow> Inl RuntimeError
      | Some n1 \<Rightarrow>
          (case broadcast_len n1 (length b) of
             None \<Rightarrow> Inl RuntimeError
           | Some n \<Rightarrow>
               Inr (map (\<lambda>(ci, ai, bi). if ci then ai else bi)
                        (zip (expand_to n c) (zip (expand_to n a) (expand_to n b))))))"

text \<open>\<^verbatim>\<open>t.bool()\<close>: a number is true when it is not zero.\<close>

definition to_bool :: "real list \<Rightarrow> bool list" where
  "to_bool t = map (\<lambda>v. v \<noteq> 0) t"

subsection \<open>Distributions\<close>

text \<open>
  A diagonal Normal with one event per row (\<^verbatim>\<open>to_event(1)\<close>), given by the rows of its
  location and scale, and a Bernoulli given by one logit per row.
\<close>

datatype distribution =
    Normal "real list list" "real list list"
  | Bernoulli "real list"

subsection \<open>Tensors, sites and traces\<close>

text \<open>
  A sampled or observed value is a vector (one number per row of the minibatch) or a
  matrix (one row per row of the minibatch). A zero-dimensional tensor is written as a
  vector of length one, which broadcasts in the same way. A scalar tensor, such as the
  total log-density of a site, is kept apart from a Python float: \<^verbatim>\<open>torch_item\<close>
  reads its value.
\<close>

datatype tensor = Vec "real list" | Mat "real list list"

datatype scalar = Scalar real

fun torch_item :: "scalar \<Rightarrow> real" where
  "torch_item (Scalar v) = v"

text \<open>
  A Python float is a binary64 number, with 53 significant bits, and a scalar tensor is
  in torch's default precision, binary32, with 24. The result of an addition or a
  subtraction is the exact result rounded to the nearest number of the format, a tie
  going to the even neighbour; overflow and subnormal numbers are left out. Negation
  and \<^verbatim>\<open>torch_item\<close> are exact.
\<close>

definition pow2 :: "int \<Rightarrow> real" where
  "pow2 k = (if 0 \<le> k then 2 ^ nat k else 1 / 2 ^ nat (- k))"

definition round_half_even :: "real \<Rightarrow> int" where
  "round_half_even v =
     (let n = \<lfloor>v\<rfloor>; d = v - of_int n
      in if d < 1 / 2 then n else if 1 / 2 < d then n + 1 else if even n then n else n + 1)"

definition round_to :: "nat \<Rightarrow> real \<Rightarrow> real" where
  "round_to p v =
     (if v = 0 then 0
      else (let ulp = pow2 (\<lfloor>log 2 \<bar>v\<bar>\<rfloor> - int p + 1)
            in of_int (round_half_even (v / ulp)) * ulp))"

definition float64 :: "real \<Rightarrow> real" where
  "float64 v = round_to 53 v"

definition float32 :: "real \<Rightarrow> real" where
  "float32 v = round_to 24 v"

definition py_float_add :: "real \<Rightarrow> real \<Rightarrow> real" where
  "py_float_add a b = float64 (a + b)"

definition py_float_sub :: "real \<Rightarrow> real \<Rightarrow> real" where
  "py_float_sub a b = float64 (a - b)"

fun scalar_minus :: "scalar \<Rightarrow> scalar \<Rightarrow> scalar" where
  "scalar_minus (Scalar a) (Scalar b) = Scalar (float32 (a - b))"

fun scalar_plus :: "scalar \<Rightarrow> scalar \<Rightarrow> scalar" where
  "scalar_plus (Scalar a) (Scalar b) = Scalar (float32 (a + b))"

fun scalar_neg :: "scalar \<Rightarrow> scalar" where
  "scalar_neg (Scalar a) = Scalar (- a)"

record site =
  site_type :: string
  site_fn :: distribution
  is_observed :: bool
  site_value :: tensor
  is_auxiliary :: bool
  log_prob_sum :: scalar

text \<open>The nodes of a trace: an ordered dictionary from site names to sites.\<close>

type_synonym trace = "(string \<times> site) list"

definition and_then :: "error + 'a \<Rightarrow> ('a \<Rightarrow> error + 'b) \<Rightarrow> error + 'b" where
  "and_then m f = (case m of Inl e \<Rightarrow> Inl e | Inr a \<Rightarrow> f a)"

fun as_vec :: "tensor \<Rightarrow> error + real list" where
  "as_vec (Vec v) = Inr v"
| "as_vec (Mat m) = Inl RuntimeError"

fun as_mat :: "tensor \<Rightarrow> error + real list list" where
  "as_mat (Mat m) = Inr m"
| "as_mat (Vec v) = Inl RuntimeError"

subsection \<open>The sampling primitive\<close>

text \<open>
  The numerical back end is a parameter: how the random generator is seeded, how the two
  kinds of distribution draw a value from a generator state, and the log-density of a
  value, one number per row.
\<close>

record 'g backend =
  manual_seed :: "nat \<Rightarrow> 'g"
  draw_normal :: "real list list \<Rightarrow> real list list \<Rightarrow> 'g \<Rightarrow> real list list \<times> 'g"
  draw_bernoulli :: "real list \<Rightarrow> 'g \<Rightarrow> real list \<times> 'g"
  log_prob :: "distribution \<Rightarrow> tensor \<Rightarrow> real list"

definition dist_sample :: "'g backend \<Rightarrow> distribution \<Rightarrow> 'g \<Rightarrow> tensor \<times> 'g" where
  "dist_sample be d g =
     (case d of
        Normal loc scale \<Rightarrow> (let (m, g') = draw_normal be loc scale g in (Mat m, g'))
      | Bernoulli logits \<Rightarrow> (let (v, g') = draw_bernoulli be logits g in (Vec v, g')))"

text \<open>
  The effect handlers in force around a call: the trace that \<^verbatim>\<open>poutine.replay\<close>
  replays (empty when there is none) and the interventions of \<^verbatim>\<open>poutine.do\<close>.
\<close>

record handlers =
  replay_trace :: trace
  do_data :: "(string \<times> tensor) list"

definition no_handlers :: handlers where
  "no_handlers = \<lparr>replay_trace = [], do_data = []\<rparr>"

text \<open>
  Modelled from the spec: the plate of \<^verbatim>\<open>pyro.plate\<close> is not among the source files.
  Inside a plate over \<open>n\<close> rows a distribution has \<open>n\<close> rows; a distribution with a
  single row is repeated for every row.
\<close>

definition expand_rows :: "nat \<Rightarrow> 'a list \<Rightarrow> error + 'a list" where
  "expand_rows n xs =
     (if length xs = n then Inr xs
      else if length xs = 1 then Inr (concat (replicate n xs))
      else Inl RuntimeError)"

definition plate_expand :: "nat \<Rightarrow> distribution \<Rightarrow> error + distribution" where
  "plate_expand n d =
     (case d of
        Normal loc scale \<Rightarrow>
          and_then (expand_rows n loc) (\<lambda>loc'.
          and_then (expand_rows n scale) (\<lambda>scale'. Inr (Normal loc' scale')))
      | Bernoulli logits \<Rightarrow>
          and_then (expand_rows n logits) (\<lambda>logits'. Inr (Bernoulli logits')))"

text \<open>
  Modelled from the spec: \<^verbatim>\<open>pyro.sample\<close> and the recording of traces are not among
  the source files. A site is a named sample point with its distribution, its value,
  whether the value was observed, its auxiliary flag and its log-density, scaled by the
  plate's subsampling factor. A site forced by an intervention takes the forced value; a
  site given an observation takes the observation; a site found in a replayed trace
  takes the recorded value rather than a new draw; any other site draws from its
  distribution. The site is appended to the trace being recorded.
\<close>

definition make_site ::
  "'g backend \<Rightarrow> real \<Rightarrow> distribution \<Rightarrow> bool \<Rightarrow> tensor \<Rightarrow> bool \<Rightarrow> site" where
  "make_site be scale d observed v aux =
     \<lparr>site_type = ''sample'', site_fn = d, is_observed = observed, site_value = v,
      is_auxiliary = aux, log_prob_sum = Scalar (scale * sum_list (log_prob be d v))\<rparr>"

definition pyro_sample ::
  "'g backend \<Rightarrow> handlers \<Rightarrow> nat \<Rightarrow> real \<Rightarrow> string \<Rightarrow> distribution \<Rightarrow> tensor option \<Rightarrow> bool \<Rightarrow>
     trace \<times> 'g \<Rightarrow> error + (tensor \<times> trace \<times> 'g)" where
  "pyro_sample be h n scale name d obs aux st =
     and_then (plate_expand n d) (\<lambda>d'.
       (case map_of (do_data h) name of
          Some v \<Rightarrow> Inr (v, fst st @ [(name, make_site be scale d' True v aux)], snd st)
        | None \<Rightarrow>
            (case obs of
               Some v \<Rightarrow> Inr (v, fst st @ [(name, make_site be scale d' True v aux)], snd st)
             | None \<Rightarrow>
                 (case map_of (replay_trace h) name of
                    Some s \<Rightarrow>
                      Inr (site_value s,
                           fst st @ [(name, make_site be scale d' False (site_value s) aux)],
                           snd st)
                  | None \<Rightarrow>
                      (let (v, g') = dist_sample be d' (snd st)
                       in Inr (v, fst st @ [(name, make_site be scale d' False v aux)], g'))))))"

text \<open>
  Modelled from the spec: the plate \<^verbatim>\<open>"data"\<close> of \<^verbatim>\<open>pyro.plate\<close> is not among the
  source files. Its subsampling factor is the size of the whole data set over the number
  of rows of the minibatch; a plate of size zero, or over a minibatch without rows, has
  no such factor and raises ZeroDivisionError.
\<close>

definition pyro_plate :: "nat \<Rightarrow> nat \<Rightarrow> error + real" where
  "pyro_plate size' n =
     (if size' = 0 \<or> n = 0 then Inl ZeroDivisionError else Inr (real size' / real n))"

subsection \<open>The generative model\<close>

record Model =
  p_latent_dim :: nat
  p_x_nn :: "real list \<Rightarrow> real list"
  p_y0_nn :: "real list \<Rightarrow> real"
  p_y1_nn :: "real list \<Rightarrow> real"
  p_t_nn :: "real list \<Rightarrow> real"

text \<open>
  \<^verbatim>\<open>Normal(0, 1).expand([latent_dim]).to_event(1)\<close>: one row, which the enclosing plate
  repeats for every row of the minibatch.
\<close>

definition Model_z_dist :: "Model \<Rightarrow> distribution" where
  "Model_z_dist self = Normal [replicate (p_latent_dim self) 0] [replicate (p_latent_dim self) 1]"

definition Model_x_dist :: "Model \<Rightarrow> real list list \<Rightarrow> distribution" where
  "Model_x_dist self z =
     (let (loc, scale) = DiagNormalNet_forward (p_x_nn self) z in Normal loc scale)"

definition Model_y_dist :: "Model \<Rightarrow> real list \<Rightarrow> real list list \<Rightarrow> error + distribution" where
  "Model_y_dist self t z =
     (let logits0 = BernoulliNet_forward (p_y0_nn self) z;
          logits1 = BernoulliNet_forward (p_y1_nn self) z
      in case torch_where (to_bool t) logits1 logits0 of
           Inl e \<Rightarrow> Inl e
         | Inr logits \<Rightarrow> Inr (Bernoulli logits))"

definition Model_t_dist :: "Model \<Rightarrow> real list list \<Rightarrow> distribution" where
  "Model_t_dist self z = Bernoulli (BernoulliNet_forward (p_t_nn self) z)"

text \<open>
  \<^verbatim>\<open>Model.forward\<close>. The sites are recorded in the order z, x, t, y; the result is the
  value of the last one, with the trace and the generator state.
\<close>

definition Model_forward ::
  "'g backend \<Rightarrow> handlers \<Rightarrow> Model \<Rightarrow> real list list \<Rightarrow> real list option \<Rightarrow> real list option \<Rightarrow>
     nat option \<Rightarrow> 'g \<Rightarrow> error + (tensor \<times> trace \<times> 'g)" where
  "Model_forward be h self x t y size' g =
     (let size'' = (case size' of None \<Rightarrow> length x | Some s \<Rightarrow> s);
          n = length x
      in and_then (pyro_plate size'' n) (\<lambda>scale.
         and_then (pyro_sample be h n scale ''z'' (Model_z_dist self) None False ([], g))
           (\<lambda>(zv, st1).
         and_then (as_mat zv) (\<lambda>z.
         and_then (pyro_sample be h n scale ''x'' (Model_x_dist self z) (Some (Mat x)) False st1)
           (\<lambda>(xv, st2).
         and_then (pyro_sample be h n scale ''t'' (Model_t_dist self z) (map_option Vec t)
                     False st2)
           (\<lambda>(tv, st3).
         and_then (as_vec tv) (\<lambda>t'.
         and_then (Model_y_dist self t' z) (\<lambda>y_d.
         and_then (pyro_sample be h n scale ''y'' y_d (map_option Vec y) False st3)
           (\<lambda>(yv, st4). Inr (yv, st4))))))))))"

subsection \<open>The guide\<close>

record Guide =
  q_latent_dim :: nat
  q_t_nn :: "real list \<Rightarrow> real"
  q_y_nn :: "real list \<Rightarrow> real list"
  q_y0_nn :: "real list \<Rightarrow> real"
  q_y1_nn :: "real list \<Rightarrow> real"
  q_z0_nn :: "real list \<Rightarrow> real list"
  q_z1_nn :: "real list \<Rightarrow> real list"

fun collect :: "(error + 'a) list \<Rightarrow> error + 'a list" where
  "collect [] = Inr []"
| "collect (r # rs) = and_then r (\<lambda>a. and_then (collect rs) (\<lambda>as. Inr (a # as)))"

text \<open>
  \<^verbatim>\<open>torch.where\<close> with a condition of shape [n, 1] (\<^verbatim>\<open>unsqueeze(-1)\<close>) on matrices:
  rows are matched as in the vector case, and within a row the single condition is
  broadcast.
\<close>

definition torch_where_rows ::
  "bool list \<Rightarrow> real list list \<Rightarrow> real list list \<Rightarrow> error + real list list" where
  "torch_where_rows c a b =
     (case broadcast_len (length c) (length a) of
        None \<Rightarrow> Inl RuntimeError
      | Some n1 \<Rightarrow>
          (case broadcast_len n1 (length b) of
             None \<Rightarrow> Inl RuntimeError
           | Some n \<Rightarrow>
               collect (map (\<lambda>(ci, ai, bi). torch_where [ci] ai bi)
                            (zip (expand_to n c) (zip (expand_to n a) (expand_to n b))))))"

definition Guide_t_dist :: "Guide \<Rightarrow> real list list \<Rightarrow> distribution" where
  "Guide_t_dist self x = Bernoulli (BernoulliNet_forward (q_t_nn self) x)"

definition Guide_y_dist :: "Guide \<Rightarrow> real list \<Rightarrow> real list list \<Rightarrow> error + distribution" where
  "Guide_y_dist self t x =
     (let hidden = map (q_y_nn self) x;
          logits0 = BernoulliNet_forward (q_y0_nn self) hidden;
          logits1 = BernoulliNet_forward (q_y1_nn self) hidden
      in and_then (torch_where (to_bool t) logits1 logits0) (\<lambda>logits. Inr (Bernoulli logits)))"

text \<open>
  \<^verbatim>\<open>torch.cat([y.unsqueeze(-1), x], dim=-1)\<close> puts each outcome in front of its row of
  features, and raises when the numbers of rows differ.
\<close>

definition Guide_z_dist ::
  "Guide \<Rightarrow> real list \<Rightarrow> real list \<Rightarrow> real list list \<Rightarrow> error + distribution" where
  "Guide_z_dist self y t x =
     (if length y \<noteq> length x then Inl RuntimeError
      else
        (let y_x = map (\<lambda>(yi, xi). yi # xi) (zip y x);
             (loc0, scale0) = DiagNormalNet_forward (q_z0_nn self) y_x;
             (loc1, scale1) = DiagNormalNet_forward (q_z1_nn self) y_x
         in and_then (torch_where_rows (to_bool t) loc1 loc0) (\<lambda>loc.
            and_then (torch_where_rows (to_bool t) scale1 scale0) (\<lambda>scale.
              Inr (Normal loc scale)))))"

text \<open>
  \<^verbatim>\<open>Guide.forward\<close>: the sites t and y, marked auxiliary, then z. It returns nothing;
  the result is the recorded trace and the generator state.
\<close>

definition Guide_forward ::
  "'g backend \<Rightarrow> handlers \<Rightarrow> Guide \<Rightarrow> real list list \<Rightarrow> real list option \<Rightarrow> real list option \<Rightarrow>
     nat option \<Rightarrow> 'g \<Rightarrow> error + (trace \<times> 'g)" where
  "Guide_forward be h self x t y size' g =
     (let size'' = (case size' of None \<Rightarrow> length x | Some s \<Rightarrow> s);
          n = length x
      in and_then (pyro_plate size'' n) (\<lambda>scale.
         and_then (pyro_sample be h n scale ''t'' (Guide_t_dist self x) (map_option Vec t)
                     True ([], g))
           (\<lambda>(tv, st1).
         and_then (as_vec tv) (\<lambda>t'.
         and_then (Guide_y_dist self t' x) (\<lambda>y_d.
         and_then (pyro_sample be h n scale ''y'' y_d (map_option Vec y) True st1)
           (\<lambda>(yv, st2).
         and_then (as_vec yv) (\<lambda>y'.
         and_then (Guide_z_dist self y' t' x) (\<lambda>z_d.
         and_then (pyro_sample be h n scale ''z'' z_d None False st2)
           (\<lambda>(zv, st3). Inr st3)))))))))"

subsection \<open>The training objective\<close>

text \<open>
  \<^verbatim>\<open>TraceCausalEffect_ELBO._differentiable_loss_particle\<close>. The inherited method of
  \<^verbatim>\<open>Trace_ELBO\<close> is the parameter \<open>super\<close>; it returns the loss as a Python float and
  the surrogate loss as a scalar tensor. \<^verbatim>\<open>del\<close> and the dictionary look-up raise
  KeyError on a missing name. The loss is updated by a subtraction of Python floats,
  the surrogate loss by a subtraction of tensors.
\<close>

definition blocked_names :: "trace \<Rightarrow> string list" where
  "blocked_names guide_trace =
     map fst (filter (\<lambda>(name, s). site_type s = ''sample'' \<and> is_observed s) guide_trace)"

fun del_nodes :: "string list \<Rightarrow> trace \<Rightarrow> error + trace" where
  "del_nodes [] nodes = Inr nodes"
| "del_nodes (name # names) nodes =
     (if name \<in> set (map fst nodes)
      then del_nodes names (filter (\<lambda>(n, s). n \<noteq> name) nodes)
      else Inl (KeyError name))"

fun add_log_q_terms :: "trace \<Rightarrow> string list \<Rightarrow> real \<times> scalar \<Rightarrow> error + real \<times> scalar" where
  "add_log_q_terms guide_trace [] (loss, surrogate_loss) = Inr (loss, surrogate_loss)"
| "add_log_q_terms guide_trace (name # names) (loss, surrogate_loss) =
     (case map_of guide_trace name of
        None \<Rightarrow> Inl (KeyError name)
      | Some s \<Rightarrow>
          (let log_q = log_prob_sum s
           in add_log_q_terms guide_trace names
                (py_float_sub loss (torch_item log_q), scalar_minus surrogate_loss log_q)))"

definition differentiable_loss_particle ::
  "(trace \<Rightarrow> trace \<Rightarrow> real \<times> scalar) \<Rightarrow> trace \<Rightarrow> trace \<Rightarrow> error + real \<times> scalar" where
  "differentiable_loss_particle super model_trace guide_trace =
     (let names = blocked_names guide_trace
      in and_then (del_nodes names guide_trace) (\<lambda>blocked_guide_trace.
           add_log_q_terms guide_trace names (super model_trace blocked_guide_trace)))"

text \<open>
  Modelled from the spec: \<^verbatim>\<open>Trace_ELBO._differentiable_loss_particle\<close> is not among
  the source files. The standard loss of one particle is the negative log joint of the
  model minus the negative log-density of the guide, over the sample sites of the two
  traces, the terms taken in the order of the traces; the reporting form works on the
  values of the terms as Python floats, the surrogate form on the terms as tensors.
\<close>

definition sample_log_probs :: "trace \<Rightarrow> scalar list" where
  "sample_log_probs tr =
     map (\<lambda>(name, s). log_prob_sum s) (filter (\<lambda>(name, s). site_type s = ''sample'') tr)"

definition Trace_ELBO_loss_particle :: "trace \<Rightarrow> trace \<Rightarrow> real \<times> scalar" where
  "Trace_ELBO_loss_particle model_trace guide_trace =
     (let elbo_particle =
            foldl (\<lambda>acc lp. py_float_sub acc (torch_item lp))
              (foldl (\<lambda>acc lp. py_float_add acc (torch_item lp)) 0
                 (sample_log_probs model_trace))
              (sample_log_probs guide_trace);
          surrogate_elbo_particle =
            foldl scalar_minus
              (foldl scalar_plus (Scalar 0) (sample_log_probs model_trace))
              (sample_log_probs guide_trace)
      in (- elbo_particle, scalar_neg surrogate_elbo_particle))"


subsection \<open>The effect estimator\<close>

record CEVAE =
  self_feature_dim :: int
  model :: Model
  guide :: Guide









section \<open>Verified properties\<close>

subsection \<open>Sequencing of fallible steps\<close>

lemma and_then_Inr [simp]: "and_then (Inr a) f = f a"
  by (simp add: and_then_def)

lemma and_then_Inl [simp]: "and_then (Inl e) f = Inl e"
  by (simp add: and_then_def)

lemma and_then_eq_Inr:
  "and_then m f = Inr b \<longleftrightarrow> (\<exists>a. m = Inr a \<and> f a = Inr b)"
  by (cases m) simp_all

subsection \<open>Construction\<close>












































subsection \<open>Preconditions of fit\<close>

lemma fit_asserts_Inr:
  "fit_asserts fd x t y = Inr () \<longleftrightarrow>
     length x = 2 \<and> int (last x) = py_int fd \<and> t = take 1 x \<and> length y \<le> 1"
proof -
  have "y = take 1 y \<longleftrightarrow> length y \<le> 1"
    by (cases y) auto
  then show ?thesis by (auto simp: fit_asserts_def)
qed

lemma fit_asserts_Inl: "fit_asserts fd x t y = Inl e \<Longrightarrow> e = AssertionError"
  by (auto simp: fit_asserts_def split: if_splits)

text \<open>
  Apart from a y without dimensions, whatever breaks the precondition makes
  \<^verbatim>\<open>fit\<close> raise an assertion failure: from its own assertions for x, for t and for a y
  of two or more dimensions, and from the data set's size check for a one-dimensional
  y of another length.
\<close>

lemma fit_raises_AssertionError:
  assumes "\<not> (length x = 2 \<and> int (last x) = py_int fd \<and> t = take 1 x \<and> y = take 1 x)"
    and "y \<noteq> []"
  shows "CEVAE_fit train fd x t y = Inl AssertionError"
proof (cases "fit_asserts fd x t y")
  case (Inl e)
  with fit_asserts_Inl [OF Inl] show ?thesis by (simp add: CEVAE_fit_def)
next
  case (Inr u)
  then have a: "length x = 2" "int (last x) = py_int fd" "t = take 1 x" "length y \<le> 1"
    using fit_asserts_Inr [of fd x t y] by simp_all
  from a(1) obtain n d where x: "x = [n, d]"
    by (cases x; cases "tl x") auto
  from a(4) assms(2) obtain k where y: "y = [k]"
    by (cases y) auto
  from assms(1) a x y have "k \<noteq> n" by auto
  with Inr x y a(3) show ?thesis
    by (simp add: CEVAE_fit_def TensorDataset_init_def)
qed

text \<open>
  Claim C3. The third assertion of \<^verbatim>\<open>fit\<close> compares the shape of y with itself, where
  the one for t compares with the shape of x. So a y without dimensions, which does not
  share the leading dimension of x, passes the three assertions; \<^verbatim>\<open>fit\<close> then fails
  with the IndexError of \<^verbatim>\<open>size(0)\<close> in the construction of the data set, not with an
  assertion failure.
\<close>

theorem fit_zero_dim_y_IndexError:
  "fit_asserts (PyInt 5) [4, 5] [4] [] = Inr ()
   \<and> CEVAE_fit train (PyInt 5) [4, 5] [4] [] = Inl IndexError"
  by (simp add: CEVAE_fit_def fit_asserts_def TensorDataset_init_def)

subsection \<open>The scale of the diagonal Normal head\<close>

lemma softplus_pos: "0 < softplus v"
proof (cases "20 < v")
  case True
  then show ?thesis by (simp add: softplus_def)
next
  case False
  have "1 < 1 + exp v" by simp
  then have "0 < ln (1 + exp v)" by (rule ln_gt_zero)
  with False show ?thesis by (simp add: softplus_def)
qed

lemma clamp_min_pos: "0 < m \<Longrightarrow> 0 < clamp_min m v"
  by (simp add: clamp_min_def max_def)

lemma clamp_min_ge: "m \<le> clamp_min m v"
  by (simp add: clamp_min_def)

lemma DiagNormalNet_forward_row_scale:
  "s \<in> set (snd (DiagNormalNet_forward_row fc x)) \<Longrightarrow> 1 / 10 ^ 10 \<le> s"
proof -
  assume "s \<in> set (snd (DiagNormalNet_forward_row fc x))"
  then obtain v where "s = clamp_min (1 / 10 ^ 10) (softplus v)"
    by (auto simp: DiagNormalNet_forward_row_def Let_def)
  then show ?thesis
    using clamp_min_ge [of "1 / 10 ^ 10" "softplus v"] by simp
qed

text \<open>
  Claim C2. Every entry of the scale returned by \<^verbatim>\<open>DiagNormalNet.forward\<close> is strictly
  positive, and at least the floor 1e-10, whatever the backbone computes: for one row
  and for every row of a batch.
\<close>

theorem DiagNormalNet_scale_positive:
  "(\<forall>s \<in> set (snd (DiagNormalNet_forward_row fc x)). 0 < s \<and> 1 / 10 ^ 10 \<le> s)
   \<and> (\<forall>row \<in> set (snd (DiagNormalNet_forward fc xs)). \<forall>s \<in> set row. 0 < s \<and> 1 / 10 ^ 10 \<le> s)"
proof -
  have pos: "0 < s" if "1 / 10 ^ 10 \<le> s" for s :: real
  proof -
    have "(0::real) < 1 / 10 ^ 10" by simp
    with that show ?thesis by linarith
  qed
  have row: "\<forall>s \<in> set (snd (DiagNormalNet_forward_row fc r)). 0 < s \<and> 1 / 10 ^ 10 \<le> s" for r
    using DiagNormalNet_forward_row_scale [of _ fc r] pos by blast
  then show ?thesis
    by (auto simp: DiagNormalNet_forward_def)
qed

theorem DiagNormalNet_scale_positive_witness:
  "snd (DiagNormalNet_forward_row (\<lambda>x. x) [0, 3, - 1000, 25]) =
     [clamp_min (1 / 10 ^ 10) (softplus (- 1000)), 25]
   \<and> 0 < clamp_min (1 / 10 ^ 10) (softplus (- 1000))
   \<and> length (snd (DiagNormalNet_forward (\<lambda>x. x) [[0, - 1000], [1, 30]])) = 2"
proof -
  have a: "snd (DiagNormalNet_forward_row (\<lambda>x. x) [0, 3, - 1000, 25]) =
     [clamp_min (1 / 10 ^ 10) (softplus (- 1000)), 25]"
    by (simp add: DiagNormalNet_forward_row_def Let_def clamp_min_def softplus_def)
  have "\<forall>s \<in> set (snd (DiagNormalNet_forward_row (\<lambda>x. x) [0, 3, - 1000, 25])). 0 < s"
    using DiagNormalNet_scale_positive [of "\<lambda>x. x" "[0, 3, - 1000, 25]" "[]"] by blast
  with a have "0 < clamp_min (1 / 10 ^ 10) (softplus (- 1000))" by simp
  with a show ?thesis by (simp add: DiagNormalNet_forward_def)
qed

subsection \<open>Selection between the outcome heads\<close>

lemma torch_where_same_length:
  assumes "length c = n" "length a = n" "length b = n"
  shows "torch_where c a b = Inr (map (\<lambda>(ci, ai, bi). if ci then ai else bi) (zip c (zip a b)))"
  using assms by (simp add: torch_where_def broadcast_len_def expand_to_def)

lemma Model_y_dist_rows:
  assumes "length t = length z"
  shows "Model_y_dist self t z =
           Inr (Bernoulli (map (\<lambda>(ti, zi). if ti \<noteq> 0 then p_y1_nn self zi else p_y0_nn self zi)
                               (zip t z)))"
proof -
  let ?n = "length z"
  have w: "torch_where (to_bool t) (BernoulliNet_forward (p_y1_nn self) z)
             (BernoulliNet_forward (p_y0_nn self) z) =
           Inr (map (\<lambda>(ci, ai, bi). if ci then ai else bi)
                  (zip (to_bool t) (zip (BernoulliNet_forward (p_y1_nn self) z)
                                        (BernoulliNet_forward (p_y0_nn self) z))))"
    by (rule torch_where_same_length [where n = ?n])
       (simp_all add: assms to_bool_def BernoulliNet_forward_def)
  have "map (\<lambda>(ci, ai, bi). if ci then ai else bi)
          (zip (to_bool t) (zip (BernoulliNet_forward (p_y1_nn self) z)
                                (BernoulliNet_forward (p_y0_nn self) z))) =
        map (\<lambda>(ti, zi). if ti \<noteq> 0 then p_y1_nn self zi else p_y0_nn self zi) (zip t z)"
    using assms by (intro nth_equalityI) (simp_all add: to_bool_def BernoulliNet_forward_def)
  with w show ?thesis by (simp add: Model_y_dist_def Let_def)
qed

text \<open>
  Claim C5. For a treatment vector with one entry per row of z, \<^verbatim>\<open>Model.y_dist\<close> returns
  a Bernoulli whose logit in each row is the output of the head y1 where t is true and of
  the head y0 where t is false. The heads are separate: replacing the head y0 by any
  other function leaves the logits of the treated rows unchanged, and replacing the head
  y1 leaves those of the control rows unchanged.
\<close>

theorem Model_y_dist_selects:
  "length t = length z \<longrightarrow>
     (\<exists>logits. Model_y_dist self t z = Inr (Bernoulli logits) \<and> length logits = length z
        \<and> (\<forall>i < length z. logits ! i = (if t ! i \<noteq> 0 then p_y1_nn self (z ! i)
                                          else p_y0_nn self (z ! i)))
        \<and> (\<exists>logits'. Model_y_dist (self\<lparr>p_y0_nn := f\<rparr>) t z = Inr (Bernoulli logits')
              \<and> (\<forall>i < length z. t ! i \<noteq> 0 \<longrightarrow> logits' ! i = logits ! i))
        \<and> (\<exists>logits'. Model_y_dist (self\<lparr>p_y1_nn := f\<rparr>) t z = Inr (Bernoulli logits')
              \<and> (\<forall>i < length z. t ! i = 0 \<longrightarrow> logits' ! i = logits ! i)))"
proof
  assume len: "length t = length z"
  show "\<exists>logits. Model_y_dist self t z = Inr (Bernoulli logits) \<and> length logits = length z
        \<and> (\<forall>i < length z. logits ! i = (if t ! i \<noteq> 0 then p_y1_nn self (z ! i)
                                          else p_y0_nn self (z ! i)))
        \<and> (\<exists>logits'. Model_y_dist (self\<lparr>p_y0_nn := f\<rparr>) t z = Inr (Bernoulli logits')
              \<and> (\<forall>i < length z. t ! i \<noteq> 0 \<longrightarrow> logits' ! i = logits ! i))
        \<and> (\<exists>logits'. Model_y_dist (self\<lparr>p_y1_nn := f\<rparr>) t z = Inr (Bernoulli logits')
              \<and> (\<forall>i < length z. t ! i = 0 \<longrightarrow> logits' ! i = logits ! i))"
    using len
    by (simp add: Model_y_dist_rows [OF len, of self]
          Model_y_dist_rows [OF len, of "self\<lparr>p_y0_nn := f\<rparr>"]
          Model_y_dist_rows [OF len, of "self\<lparr>p_y1_nn := f\<rparr>"])
qed

theorem Model_y_dist_selects_witness:
  "length [0, 1, 0 :: real] = length [[1], [2], [3 :: real]]
   \<and> Model_y_dist \<lparr>p_latent_dim = 1, p_x_nn = (\<lambda>r. r), p_y0_nn = (\<lambda>r. 10 + hd r),
                    p_y1_nn = (\<lambda>r. 20 + hd r), p_t_nn = hd\<rparr> [0, 1, 0] [[1], [2], [3]]
       = Inr (Bernoulli [11, 22, 13])"
proof -
  let ?m = "\<lparr>p_latent_dim = 1, p_x_nn = (\<lambda>r. r), p_y0_nn = (\<lambda>r. 10 + hd r),
             p_y1_nn = (\<lambda>r. 20 + hd r), p_t_nn = hd\<rparr>"
  have h: "length [0, 1, 0 :: real] = length [[1], [2], [3 :: real]]" by simp
  from Model_y_dist_selects [of "[0, 1, 0]" "[[1], [2], [3]]" ?m "\<lambda>r. 0"] h
  obtain logits where l: "Model_y_dist ?m [0, 1, 0] [[1], [2], [3]] = Inr (Bernoulli logits)"
    and n: "length logits = length [[1], [2], [3 :: real]]"
    and v: "\<forall>i < length [[1], [2], [3 :: real]].
              logits ! i = (if [0, 1, 0 :: real] ! i \<noteq> 0 then p_y1_nn ?m ([[1], [2], [3]] ! i)
                            else p_y0_nn ?m ([[1], [2], [3]] ! i))"
    by blast
  from v have "logits ! 0 = 11" "logits ! 1 = 22" "logits ! 2 = 13"
    by (simp_all add: numeral_2_eq_2)
  with n have "logits = [11, 22, 13]"
    by (intro nth_equalityI) (auto simp: less_Suc_eq numeral_2_eq_2)
  with l show ?thesis by simp
qed

subsection \<open>Sample statements\<close>

lemma pyro_sample_no_handlers:
  "pyro_sample be no_handlers n scale name d obs aux st =
     and_then (plate_expand n d) (\<lambda>d'.
       case obs of
         Some v \<Rightarrow> Inr (v, fst st @ [(name, make_site be scale d' True v aux)], snd st)
       | None \<Rightarrow>
           (case dist_sample be d' (snd st) of
              (v, g') \<Rightarrow> Inr (v, fst st @ [(name, make_site be scale d' False v aux)], g')))"
  by (cases "plate_expand n d"; cases obs)
     (simp_all add: pyro_sample_def no_handlers_def Let_def)

lemma pyro_sample_appends:
  assumes "pyro_sample be no_handlers n scale name d obs aux st = Inr (v, tr, g')"
  shows "\<exists>s. tr = fst st @ [(name, s)] \<and> site_value s = v \<and> site_type s = ''sample''
           \<and> is_observed s = (obs \<noteq> None)
           \<and> (case obs of Some w \<Rightarrow> v = w \<and> g' = snd st
               | None \<Rightarrow> (v, g') = dist_sample be (site_fn s) (snd st))"
proof -
  from assms obtain d' where d': "plate_expand n d = Inr d'"
    and r: "(case obs of
         Some v \<Rightarrow> Inr (v, fst st @ [(name, make_site be scale d' True v aux)], snd st)
       | None \<Rightarrow>
           (case dist_sample be d' (snd st) of
              (v, g') \<Rightarrow> Inr (v, fst st @ [(name, make_site be scale d' False v aux)], g')))
        = (Inr (v, tr, g') :: error + (tensor \<times> trace \<times> 'a))"
    by (auto simp: pyro_sample_no_handlers and_then_eq_Inr)
  show ?thesis
  proof (cases obs)
    case None
    obtain w g1 where w: "dist_sample be d' (snd st) = (w, g1)"
      by (cases "dist_sample be d' (snd st)")
    with r None have "v = w" "g' = g1" "tr = fst st @ [(name, make_site be scale d' False w aux)]"
      by auto
    with None w show ?thesis
      by (intro exI [of _ "make_site be scale d' False w aux"]) (simp add: make_site_def)
  next
    case (Some w)
    with r have "v = w" "g' = snd st" "tr = fst st @ [(name, make_site be scale d' True w aux)]"
      by auto
    with Some show ?thesis
      by (intro exI [of _ "make_site be scale d' True w aux"]) (simp add: make_site_def)
  qed
qed

lemma expand_rows_ok: "length xs = n \<Longrightarrow> expand_rows n xs = Inr xs"
  by (simp add: expand_rows_def)

lemma expand_rows_single: "expand_rows n [r] = Inr (replicate n r)"
  by (cases "n = 1") (simp_all add: expand_rows_def)

lemma length_DiagNormalNet_forward:
  "length (fst (DiagNormalNet_forward fc z)) = length z"
  "length (snd (DiagNormalNet_forward fc z)) = length z"
  by (simp_all add: DiagNormalNet_forward_def)

lemma plate_expand_z_dist:
  "plate_expand n (Model_z_dist self) =
     Inr (Normal (replicate n (replicate (p_latent_dim self) 0))
                 (replicate n (replicate (p_latent_dim self) 1)))"
  by (simp add: plate_expand_def Model_z_dist_def expand_rows_single)

lemma plate_expand_x_dist:
  "length z = n \<Longrightarrow> plate_expand n (Model_x_dist self z) = Inr (Model_x_dist self z)"
  by (simp add: plate_expand_def Model_x_dist_def DiagNormalNet_forward_def expand_rows_def)

lemma plate_expand_t_dist:
  "length z = n \<Longrightarrow> plate_expand n (Model_t_dist self z) = Inr (Model_t_dist self z)"
  by (simp add: plate_expand_def Model_t_dist_def expand_rows_ok BernoulliNet_forward_def)

subsection \<open>Rounding\<close>

lemma pow2_powr: "pow2 k = 2 powr (of_int k)"
proof (cases "0 \<le> k")
  case True
  then have "2 powr (of_int k) = (2 :: real) powr (real (nat k))" by simp
  also have "\<dots> = 2 ^ nat k" by (simp add: powr_realpow)
  finally show ?thesis using True by (simp add: pow2_def)
next
  case False
  then have "(2 :: real) powr (of_int k) = 2 powr (- real (nat (- k)))" by simp
  also have "\<dots> = 1 / 2 ^ nat (- k)"
    by (simp add: powr_minus powr_realpow inverse_eq_divide)
  finally show ?thesis using False by (simp add: pow2_def)
qed

lemma pow2_pos: "0 < pow2 k"
  by (simp add: pow2_powr)

lemma pow2_add: "pow2 (a + b) = pow2 a * pow2 b"
  by (simp add: pow2_powr powr_add)

lemma pow2_nat: "pow2 (int n) = 2 ^ n"
  by (simp add: pow2_def)

lemma round_half_even_of_int: "round_half_even (of_int m) = m"
  by (simp add: round_half_even_def)


lemma round_to_multiple:
  assumes "v = of_int m * pow2 (\<lfloor>log 2 \<bar>v\<bar>\<rfloor> - int p + 1)"
  shows "round_to p v = v"
proof (cases "v = 0")
  case True
  then show ?thesis by (simp add: round_to_def)
next
  case False
  let ?u = "pow2 (\<lfloor>log 2 \<bar>v\<bar>\<rfloor> - int p + 1)"
  have u: "?u \<noteq> 0" using pow2_pos [of "\<lfloor>log 2 \<bar>v\<bar>\<rfloor> - int p + 1"] by simp
  from assms have "v / ?u = of_int m" using u by (simp add: field_simps)
  then have "round_half_even (v / ?u) = m" by (simp add: round_half_even_of_int)
  with False assms show ?thesis by (simp add: round_to_def Let_def)
qed





lemma round_to_of_int:
  assumes "\<bar>n\<bar> < 2 ^ p"
  shows "round_to p (of_int n) = of_int n"
proof (cases "n = 0")
  case True
  then show ?thesis by (simp add: round_to_def)
next
  case False
  let ?v = "real_of_int n"
  let ?e = "\<lfloor>log 2 \<bar>?v\<bar>\<rfloor>"
  from False have pos: "0 < \<bar>?v\<bar>" by simp
  have "\<bar>?v\<bar> < 2 ^ p"
    using assms by (metis of_int_abs of_int_less_iff of_int_numeral of_int_power)
  then have "\<bar>?v\<bar> < 2 powr (real p)" by (simp add: powr_realpow)
  then have "log 2 \<bar>?v\<bar> < real p" using pos by (simp add: log_less_iff)
  then have "?e < int p" by (simp add: floor_less_iff)
  then obtain d where d: "int p - 1 - ?e = int d"
    by (metis diff_ge_0_iff_ge nonneg_int_cases zle_diff1_eq)
  from d have "?e - int p + 1 + int d = 0" by linarith
  then have "pow2 (?e - int p + 1) * pow2 (int d) = pow2 0"
    unfolding pow2_add [symmetric] by (rule arg_cong)
  then have "pow2 (?e - int p + 1) * 2 ^ d = 1"
    by (simp add: pow2_nat) (simp add: pow2_def)
  then have "?v = of_int (n * 2 ^ d) * pow2 (?e - int p + 1)"
    by (simp add: mult.assoc mult.commute [of "2 ^ d"])
  then show ?thesis by (rule round_to_multiple)
qed

lemma float64_of_int: "\<bar>n\<bar> < 2 ^ 53 \<Longrightarrow> float64 (of_int n) = of_int n"
  by (simp add: float64_def round_to_of_int)

lemma float32_of_int: "\<bar>n\<bar> < 2 ^ 24 \<Longrightarrow> float32 (of_int n) = of_int n"
  by (simp add: float32_def round_to_of_int)

lemma float64_numeral:
  "(numeral w :: int) < 2 ^ 53 \<Longrightarrow> float64 (numeral w) = numeral w"
  using float64_of_int [of "numeral w"] by simp

lemma float64_neg_numeral:
  "(numeral w :: int) < 2 ^ 53 \<Longrightarrow> float64 (- numeral w) = - numeral w"
  using float64_of_int [of "- numeral w"] by simp

lemma float64_0: "float64 0 = 0"
  by (simp add: float64_def round_to_def)

lemma float64_1: "float64 1 = 1"
  using float64_of_int [of 1] by simp

lemma float64_neg_1: "float64 (- 1) = - 1"
  using float64_of_int [of "- 1"] by simp

lemma float32_numeral:
  "(numeral w :: int) < 2 ^ 24 \<Longrightarrow> float32 (numeral w) = numeral w"
  using float32_of_int [of "numeral w"] by simp

lemma float32_neg_numeral:
  "(numeral w :: int) < 2 ^ 24 \<Longrightarrow> float32 (- numeral w) = - numeral w"
  using float32_of_int [of "- numeral w"] by simp

lemma float32_0: "float32 0 = 0"
  by (simp add: float32_def round_to_def)

lemma float32_1: "float32 1 = 1"
  using float32_of_int [of 1] by simp

lemma float32_neg_1: "float32 (- 1) = - 1"
  using float32_of_int [of "- 1"] by simp

lemmas float_of_small_int =
  float64_numeral float64_neg_numeral float64_0 float64_1 float64_neg_1
  float32_numeral float32_neg_numeral float32_0 float32_1 float32_neg_1

subsection \<open>Decomposition of the training objective\<close>

lemma Guide_forward_observed_trace:
  assumes "Guide_forward be no_handlers self x (Some t) (Some y) size' g = Inr (guide_trace, g')"
  shows "\<exists>st sy sz. guide_trace = [(''t'', st), (''y'', sy), (''z'', sz)]
           \<and> site_type st = ''sample'' \<and> is_observed st
           \<and> site_type sy = ''sample'' \<and> is_observed sy
           \<and> site_type sz = ''sample'' \<and> \<not> is_observed sz"
proof -
  from assms obtain scale tv tr1 g1 y_d yv tr2 g2 z_d zv where
    r1: "pyro_sample be no_handlers (length x) scale ''t'' (Guide_t_dist self x)
           (Some (Vec t)) True ([], g) = Inr (tv, tr1, g1)"
    and r2: "pyro_sample be no_handlers (length x) scale ''y'' y_d (Some (Vec y)) True (tr1, g1)
           = Inr (yv, tr2, g2)"
    and r3: "pyro_sample be no_handlers (length x) scale ''z'' z_d None False (tr2, g2)
           = Inr (zv, guide_trace, g')"
    by (auto simp: Guide_forward_def Let_def and_then_eq_Inr split: prod.splits)
  from pyro_sample_appends [OF r1] obtain st where
    st: "tr1 = [(''t'', st)]" "is_observed st" "site_type st = ''sample''"
    by auto
  from pyro_sample_appends [OF r2] st obtain sy where
    sy: "tr2 = [(''t'', st), (''y'', sy)]" "is_observed sy" "site_type sy = ''sample''"
    by auto
  from pyro_sample_appends [OF r3] sy obtain sz where
    sz: "guide_trace = [(''t'', st), (''y'', sy), (''z'', sz)]" "\<not> is_observed sz"
      "site_type sz = ''sample''"
    by auto
  from sz st sy show ?thesis by auto
qed

lemma differentiable_loss_particle_t_y_z:
  assumes "site_type st = ''sample''" "is_observed st"
    and "site_type sy = ''sample''" "is_observed sy"
    and "\<not> is_observed sz"
  shows "differentiable_loss_particle super model_trace [(''t'', st), (''y'', sy), (''z'', sz)] =
           Inr (py_float_sub
                  (py_float_sub (fst (super model_trace [(''z'', sz)]))
                     (torch_item (log_prob_sum st)))
                  (torch_item (log_prob_sum sy)),
                scalar_minus (scalar_minus (snd (super model_trace [(''z'', sz)]))
                                (log_prob_sum st)) (log_prob_sum sy))"
proof -
  have names: "blocked_names [(''t'', st), (''y'', sy), (''z'', sz)] = [''t'', ''y'']"
    using assms by (simp add: blocked_names_def)
  have del: "del_nodes [''t'', ''y''] [(''t'', st), (''y'', sy), (''z'', sz)] = Inr [(''z'', sz)]"
    by simp
  obtain l s where sup: "super model_trace [(''z'', sz)] = (l, s)"
    by (cases "super model_trace [(''z'', sz)]")
  show ?thesis
    by (simp add: differentiable_loss_particle_def names del sup Let_def)
qed

text \<open>
  Claim C1. For every model trace and every guide trace recorded by \<^verbatim>\<open>Guide.forward\<close>
  with t and y observed, the loss of \<^verbatim>\<open>TraceCausalEffect_ELBO\<close> for one particle is the
  inherited ELBO loss on the reduced guide trace (the guide trace without exactly the
  sites t and y) minus the total log-density of t and minus that of y under the guide;
  the surrogate loss decomposes in the same way. The inherited loss is arbitrary.
\<close>

theorem TraceCausalEffect_ELBO_decomposition:
  "Guide_forward be no_handlers self x (Some t) (Some y) size' g = Inr (guide_trace, g') \<longrightarrow>
     (\<exists>st sy. map_of guide_trace ''t'' = Some st \<and> map_of guide_trace ''y'' = Some sy
        \<and> map fst guide_trace = [''t'', ''y'', ''z'']
        \<and> differentiable_loss_particle super model_trace guide_trace =
            Inr (py_float_sub
                   (py_float_sub
                      (fst (super model_trace
                              (filter (\<lambda>(name, s). name \<notin> {''t'', ''y''}) guide_trace)))
                      (torch_item (log_prob_sum st)))
                   (torch_item (log_prob_sum sy)),
                 scalar_minus
                   (scalar_minus
                      (snd (super model_trace
                              (filter (\<lambda>(name, s). name \<notin> {''t'', ''y''}) guide_trace)))
                      (log_prob_sum st))
                   (log_prob_sum sy)))"
proof
  assume "Guide_forward be no_handlers self x (Some t) (Some y) size' g = Inr (guide_trace, g')"
  from Guide_forward_observed_trace [OF this] obtain st sy sz where
    tr: "guide_trace = [(''t'', st), (''y'', sy), (''z'', sz)]"
    and flags: "site_type st = ''sample''" "is_observed st" "site_type sy = ''sample''"
      "is_observed sy" "\<not> is_observed sz"
    by blast
  have red: "filter (\<lambda>(name, s). name \<notin> {''t'', ''y''}) guide_trace = [(''z'', sz)]"
    by (simp add: tr)
  show "\<exists>st sy. map_of guide_trace ''t'' = Some st \<and> map_of guide_trace ''y'' = Some sy
        \<and> map fst guide_trace = [''t'', ''y'', ''z'']
        \<and> differentiable_loss_particle super model_trace guide_trace =
            Inr (py_float_sub
                   (py_float_sub
                      (fst (super model_trace
                              (filter (\<lambda>(name, s). name \<notin> {''t'', ''y''}) guide_trace)))
                      (torch_item (log_prob_sum st)))
                   (torch_item (log_prob_sum sy)),
                 scalar_minus
                   (scalar_minus
                      (snd (super model_trace
                              (filter (\<lambda>(name, s). name \<notin> {''t'', ''y''}) guide_trace)))
                      (log_prob_sum st))
                   (log_prob_sum sy))"
    unfolding red
    using differentiable_loss_particle_t_y_z [OF flags, of super model_trace]
    by (intro exI [of _ st] exI [of _ sy]) (simp add: tr)
qed


theorem TraceCausalEffect_ELBO_decomposition_witness:
  "Guide_forward
     \<lparr>manual_seed = (\<lambda>k. k), draw_normal = (\<lambda>loc scale g. (loc, g + 1)),
      draw_bernoulli = (\<lambda>logits g. (map (\<lambda>l. if 0 < l then 1 else 0) logits, g + 1)),
      log_prob = (\<lambda>d v. case d of Normal loc scale \<Rightarrow> [- 3] | Bernoulli logits \<Rightarrow> [- 1])\<rparr>
     no_handlers
     \<lparr>q_latent_dim = 1, q_t_nn = (\<lambda>r. 0), q_y_nn = (\<lambda>r. r), q_y0_nn = (\<lambda>r. 0),
      q_y1_nn = (\<lambda>r. 1), q_z0_nn = (\<lambda>r. [0, 25]), q_z1_nn = (\<lambda>r. [1, 30])\<rparr>
     [[2]] (Some [1]) (Some [0]) None (0 :: nat)
   = Inr ([(''t'', \<lparr>site_type = ''sample'', site_fn = Bernoulli [0], is_observed = True,
                    site_value = Vec [1], is_auxiliary = True, log_prob_sum = Scalar (- 1)\<rparr>),
           (''y'', \<lparr>site_type = ''sample'', site_fn = Bernoulli [1], is_observed = True,
                    site_value = Vec [0], is_auxiliary = True, log_prob_sum = Scalar (- 1)\<rparr>),
           (''z'', \<lparr>site_type = ''sample'', site_fn = Normal [[1]] [[30]], is_observed = False,
                    site_value = Mat [[1]], is_auxiliary = False, log_prob_sum = Scalar (- 3)\<rparr>)],
          1)
   \<and> differentiable_loss_particle Trace_ELBO_loss_particle []
        [(''t'', \<lparr>site_type = ''sample'', site_fn = Bernoulli [0], is_observed = True,
                  site_value = Vec [1], is_auxiliary = True, log_prob_sum = Scalar (- 1)\<rparr>),
         (''y'', \<lparr>site_type = ''sample'', site_fn = Bernoulli [1], is_observed = True,
                  site_value = Vec [0], is_auxiliary = True, log_prob_sum = Scalar (- 1)\<rparr>),
         (''z'', \<lparr>site_type = ''sample'', site_fn = Normal [[1]] [[30]], is_observed = False,
                  site_value = Mat [[1]], is_auxiliary = False, log_prob_sum = Scalar (- 3)\<rparr>)]
      = Inr (- 1, Scalar (- 1))"
proof -
  let ?be = "\<lparr>manual_seed = (\<lambda>k. k), draw_normal = (\<lambda>loc scale g. (loc, g + 1)),
      draw_bernoulli = (\<lambda>logits g. (map (\<lambda>l. if 0 < l then 1 else 0) logits, g + 1)),
      log_prob = (\<lambda>d v. case d of Normal loc scale \<Rightarrow> [- 3] | Bernoulli logits \<Rightarrow> [- 1])\<rparr>
      :: nat backend"
  let ?guide = "\<lparr>q_latent_dim = 1, q_t_nn = (\<lambda>r. 0), q_y_nn = (\<lambda>r. r), q_y0_nn = (\<lambda>r. 0),
      q_y1_nn = (\<lambda>r. 1), q_z0_nn = (\<lambda>r. [0, 25]), q_z1_nn = (\<lambda>r. [1, 30])\<rparr>"
  let ?st = "\<lparr>site_type = ''sample'', site_fn = Bernoulli [0], is_observed = True,
                    site_value = Vec [1], is_auxiliary = True, log_prob_sum = Scalar (- 1)\<rparr>"
  let ?sy = "\<lparr>site_type = ''sample'', site_fn = Bernoulli [1], is_observed = True,
                    site_value = Vec [0], is_auxiliary = True, log_prob_sum = Scalar (- 1)\<rparr>"
  let ?sz = "\<lparr>site_type = ''sample'', site_fn = Normal [[1]] [[30]], is_observed = False,
                    site_value = Mat [[1]], is_auxiliary = False, log_prob_sum = Scalar (- 3)\<rparr>"
  let ?tr = "[(''t'', ?st), (''y'', ?sy), (''z'', ?sz)]"
  have zd: "Guide_z_dist ?guide [0] [1] [[2]] = Inr (Normal [[1]] [[30]])"
    by (simp add: Guide_z_dist_def DiagNormalNet_forward_def DiagNormalNet_forward_row_def
          softplus_def clamp_min_def torch_where_rows_def torch_where_def broadcast_len_def
          expand_to_def to_bool_def Let_def)
  have yd: "Guide_y_dist ?guide [1] [[2]] = Inr (Bernoulli [1])"
    by (simp add: Guide_y_dist_def BernoulliNet_forward_def torch_where_def broadcast_len_def
          expand_to_def to_bool_def Let_def)
  have run: "Guide_forward ?be no_handlers ?guide [[2]] (Some [1]) (Some [0]) None 0
               = Inr (?tr, 1)"
    using yd zd
    by (simp add: Guide_forward_def pyro_sample_def plate_expand_def expand_rows_def
          no_handlers_def make_site_def pyro_plate_def dist_sample_def Guide_t_dist_def
          BernoulliNet_forward_def Let_def)
  from TraceCausalEffect_ELBO_decomposition
         [of ?be ?guide "[[2]]" "[1]" "[0]" None 0 ?tr 1 Trace_ELBO_loss_particle "[]"] run
  have "differentiable_loss_particle Trace_ELBO_loss_particle [] ?tr = Inr (- 1, Scalar (- 1))"
    by (simp add: Trace_ELBO_loss_particle_def sample_log_probs_def py_float_add_def
          py_float_sub_def float_of_small_int Let_def)
  with run show ?thesis by simp
qed

subsection \<open>The reporting loss and the surrogate loss\<close>













subsection \<open>The value returned by the model\<close>

lemma pyro_sample_do:
  "map_of (do_data h) name = Some v \<Longrightarrow> plate_expand n d = Inr d' \<Longrightarrow>
     pyro_sample be h n scale name d obs aux st =
       Inr (v, fst st @ [(name, make_site be scale d' True v aux)], snd st)"
  by (simp add: pyro_sample_def)

lemma pyro_sample_observed:
  "map_of (do_data h) name = None \<Longrightarrow> plate_expand n d = Inr d' \<Longrightarrow>
     pyro_sample be h n scale name d (Some v) aux st =
       Inr (v, fst st @ [(name, make_site be scale d' True v aux)], snd st)"
  by (simp add: pyro_sample_def)

lemma pyro_sample_replayed:
  "map_of (do_data h) name = None \<Longrightarrow> map_of (replay_trace h) name = Some s \<Longrightarrow>
   plate_expand n d = Inr d' \<Longrightarrow>
     pyro_sample be h n scale name d None aux st =
       Inr (site_value s, fst st @ [(name, make_site be scale d' False (site_value s) aux)],
            snd st)"
  by (simp add: pyro_sample_def)

lemma pyro_sample_drawn:
  "map_of (do_data h) name = None \<Longrightarrow> map_of (replay_trace h) name = None \<Longrightarrow>
   plate_expand n d = Inr d' \<Longrightarrow> dist_sample be d' (snd st) = (v, g') \<Longrightarrow>
     pyro_sample be h n scale name d None aux st =
       Inr (v, fst st @ [(name, make_site be scale d' False v aux)], g')"
  by (simp add: pyro_sample_def)

lemma pyro_sample_site:
  assumes "pyro_sample be h n scale name d obs aux st = Inr (v, tr, g')"
  shows "\<exists>s. tr = fst st @ [(name, s)] \<and> site_value s = v
           \<and> (map_of (do_data h) name = None \<longrightarrow>
                (case obs of
                   Some w \<Rightarrow> v = w \<and> is_observed s
                 | None \<Rightarrow>
                     map_of (replay_trace h) name = None \<longrightarrow>
                       \<not> is_observed s \<and> (v, g') = dist_sample be (site_fn s) (snd st)))"
  using assms
  by (auto simp: pyro_sample_def and_then_eq_Inr make_site_def Let_def
        split: option.splits prod.splits)

lemma Model_forward_last_site:
  assumes "Model_forward be h self x t y size' g = Inr (r, tr, g')"
  shows "\<exists>sz sx st sy g3.
           tr = [(''z'', sz), (''x'', sx), (''t'', st), (''y'', sy)] \<and> site_value sy = r
           \<and> (map_of (do_data h) ''y'' = None \<longrightarrow>
                (case y of
                   Some w \<Rightarrow> r = Vec w \<and> is_observed sy
                 | None \<Rightarrow>
                     map_of (replay_trace h) ''y'' = None \<longrightarrow>
                       \<not> is_observed sy \<and> (r, g') = dist_sample be (site_fn sy) g3))"
proof -
  let ?n = "length x"
  from assms obtain scale zv tr1 g1 z xv tr2 g2 tv tr3 g3 t' y_d where
    p1: "pyro_sample be h ?n scale ''z'' (Model_z_dist self) None False ([], g)
           = Inr (zv, tr1, g1)"
    and p2: "pyro_sample be h ?n scale ''x'' (Model_x_dist self z) (Some (Mat x)) False
               (tr1, g1) = Inr (xv, tr2, g2)"
    and p3: "pyro_sample be h ?n scale ''t'' (Model_t_dist self z) (map_option Vec t)
               False (tr2, g2) = Inr (tv, tr3, g3)"
    and p4: "pyro_sample be h ?n scale ''y'' y_d (map_option Vec y) False (tr3, g3)
               = Inr (r, tr, g')"
    by (auto simp: Model_forward_def Let_def and_then_eq_Inr split: prod.splits)
  from pyro_sample_site [OF p1] obtain sz where sz: "tr1 = [(''z'', sz)]" by auto
  from pyro_sample_site [OF p2] sz obtain sx where sx: "tr2 = [(''z'', sz), (''x'', sx)]"
    by auto
  from pyro_sample_site [OF p3] sx obtain st where
    st: "tr3 = [(''z'', sz), (''x'', sx), (''t'', st)]"
    by auto
  from pyro_sample_site [OF p4] obtain sy where
    sy: "tr = fst (tr3, g3) @ [(''y'', sy)]" "site_value sy = r"
      "map_of (do_data h) ''y'' = None \<longrightarrow>
         (case map_option Vec y of
            Some w \<Rightarrow> r = w \<and> is_observed sy
          | None \<Rightarrow>
              map_of (replay_trace h) ''y'' = None \<longrightarrow>
                \<not> is_observed sy \<and> (r, g') = dist_sample be (site_fn sy) (snd (tr3, g3)))"
    by (elim exE conjE) (rule that, assumption+)
  from sy(1) st have "tr = [(''z'', sz), (''x'', sx), (''t'', st), (''y'', sy)]" by simp
  moreover from sy(3) have "map_of (do_data h) ''y'' = None \<longrightarrow>
                (case y of
                   Some w \<Rightarrow> r = Vec w \<and> is_observed sy
                 | None \<Rightarrow>
                     map_of (replay_trace h) ''y'' = None \<longrightarrow>
                       \<not> is_observed sy \<and> (r, g') = dist_sample be (site_fn sy) g3)"
    by (cases y) simp_all
  ultimately show ?thesis using sy(2)
    by (intro exI [of _ sz] exI [of _ sx] exI [of _ st] exI [of _ sy] exI [of _ g3] conjI)
qed

lemma Model_y_dist_length:
  assumes "length t = length z"
  shows "\<exists>logits. Model_y_dist self t z = Inr (Bernoulli logits) \<and> length logits = length z"
  using assms by (simp add: Model_y_dist_rows)

lemma Model_y_dist_intervened:
  assumes "z \<noteq> []"
  shows "Model_y_dist self [c] z =
           Inr (Bernoulli (map (\<lambda>zi. if c \<noteq> 0 then p_y1_nn self zi else p_y0_nn self zi) z))"
proof (cases "length z = 1")
  case True
  then obtain zi where z: "z = [zi]" by (cases z) auto
  show ?thesis
    by (simp add: z Model_y_dist_def torch_where_def broadcast_len_def expand_to_def
          to_bool_def BernoulliNet_forward_def)
next
  case False
  have "map (\<lambda>(ci, ai, bi). if ci then ai else bi)
          (zip (replicate (length z) (c \<noteq> 0)) (zip (map (p_y1_nn self) z) (map (p_y0_nn self) z)))
        = map (\<lambda>zi. if c \<noteq> 0 then p_y1_nn self zi else p_y0_nn self zi) z"
    by (intro nth_equalityI) simp_all
  moreover have "concat (replicate (length z) [c \<noteq> 0]) = replicate (length z) (c \<noteq> 0)"
    by (induction "length z") simp_all
  ultimately show ?thesis
    using False assms
    by (simp add: Model_y_dist_def torch_where_def broadcast_len_def expand_to_def
          to_bool_def BernoulliNet_forward_def)
qed

lemma pyro_plate_ok:
  "x \<noteq> [] \<Longrightarrow> size' \<noteq> Some 0 \<Longrightarrow>
     \<exists>scale. pyro_plate (case size' of None \<Rightarrow> length x | Some s \<Rightarrow> s) (length x) = Inr scale"
  by (cases size') (simp_all add: pyro_plate_def)

lemma dist_sample_Normal:
  "draw_normal be loc scale g = (z, g1) \<Longrightarrow> dist_sample be (Normal loc scale) g = (Mat z, g1)"
  by (simp add: dist_sample_def)

lemma dist_sample_Bernoulli:
  "draw_bernoulli be logits g = (v, g1) \<Longrightarrow> dist_sample be (Bernoulli logits) g = (Vec v, g1)"
  by (simp add: dist_sample_def)

lemma plate_expand_Bernoulli:
  "length logits = n \<Longrightarrow> plate_expand n (Bernoulli logits) = Inr (Bernoulli logits)"
  by (simp add: plate_expand_def expand_rows_ok)

lemma Model_forward_observed_total:
  assumes ne: "x \<noteq> []" and sz: "size' \<noteq> Some 0" and len: "length t = length x"
    and nodo: "do_data h = []"
    and rep: "\<forall>s. map_of (replay_trace h) ''z'' = Some s \<longrightarrow>
                (\<exists>z. site_value s = Mat z \<and> length z = length x)"
    and draw: "\<forall>loc scale g0. length (fst (draw_normal be loc scale g0)) = length loc"
  shows "\<exists>tr g'. Model_forward be h self x (Some t) (Some y) size' g = Inr (Vec y, tr, g')"
proof -
  let ?n = "length x"
  let ?loc = "replicate ?n (replicate (p_latent_dim self) (0 :: real))"
  let ?scale = "replicate ?n (replicate (p_latent_dim self) (1 :: real))"
  from pyro_plate_ok [OF ne sz] obtain scale where
    sc: "pyro_plate (case size' of None \<Rightarrow> length x | Some s \<Rightarrow> s) (length x) = Inr scale"
    by blast
  have nd: "map_of (do_data h) name = None" for name
    by (simp add: nodo)
  have "\<exists>z tr1 g1. pyro_sample be h ?n scale ''z'' (Model_z_dist self) None False ([], g)
                      = Inr (Mat z, tr1, g1) \<and> length z = ?n"
  proof (cases "map_of (replay_trace h) ''z''")
    case None
    obtain z g1 where zg: "draw_normal be ?loc ?scale g = (z, g1)"
      by (cases "draw_normal be ?loc ?scale g")
    with draw have lz: "length z = ?n"
      by (metis fst_conv length_replicate)
    have "dist_sample be (Normal ?loc ?scale) (snd ([] :: trace, g)) = (Mat z, g1)"
      by (simp add: dist_sample_Normal [OF zg])
    from pyro_sample_drawn [OF nd None plate_expand_z_dist this] lz show ?thesis
      by blast
  next
    case (Some s)
    with rep obtain z where z: "site_value s = Mat z" "length z = ?n"
      by blast
    from pyro_sample_replayed [OF nd Some plate_expand_z_dist, of be ?n scale self False "([], g)"] z
    show ?thesis by auto
  qed
  then obtain z tr1 g1 where
    pz: "pyro_sample be h ?n scale ''z'' (Model_z_dist self) None False ([], g)
           = Inr (Mat z, tr1, g1)"
    and lz: "length z = ?n"
    by blast
  from Model_y_dist_length [of t z self] len lz obtain logits where
    yd: "Model_y_dist self t z = Inr (Bernoulli logits)" and ll: "length logits = ?n"
    by auto
  show ?thesis
    by (simp add: Model_forward_def Let_def sc pz pyro_sample_observed [OF nd]
          plate_expand_x_dist [OF lz] plate_expand_t_dist [OF lz] yd
          plate_expand_Bernoulli [OF ll])
qed

lemma Model_forward_unobserved_total:
  assumes ne: "x \<noteq> []" and sz: "size' \<noteq> Some 0"
    and len: "\<forall>t. t_opt = Some t \<longrightarrow> length t = length x"
    and draw: "\<forall>loc scale g0. length (fst (draw_normal be loc scale g0)) = length loc"
    and drawb: "\<forall>logits g0. length (fst (draw_bernoulli be logits g0)) = length logits"
  shows "\<exists>r tr g'. Model_forward be no_handlers self x t_opt None size' g = Inr (r, tr, g')"
proof -
  let ?n = "length x"
  let ?loc = "replicate ?n (replicate (p_latent_dim self) (0 :: real))"
  let ?scale = "replicate ?n (replicate (p_latent_dim self) (1 :: real))"
  from pyro_plate_ok [OF ne sz] obtain scale where
    sc: "pyro_plate (case size' of None \<Rightarrow> length x | Some s \<Rightarrow> s) (length x) = Inr scale"
    by blast
  obtain z g1 where zg: "draw_normal be ?loc ?scale g = (z, g1)"
    by (cases "draw_normal be ?loc ?scale g")
  with draw have lz: "length z = ?n"
    by (metis fst_conv length_replicate)
  note dz = dist_sample_Normal [OF zg]
  show ?thesis
  proof (cases t_opt)
    case None
    let ?tl = "BernoulliNet_forward (p_t_nn self) z"
    obtain t g2 where tg: "draw_bernoulli be ?tl g1 = (t, g2)"
      by (cases "draw_bernoulli be ?tl g1")
    with drawb have "length t = length ?tl"
      by (metis fst_conv)
    then have lt: "length t = length z"
      by (simp add: BernoulliNet_forward_def)
    from Model_y_dist_length [OF lt, of self] lz obtain logits where
      yd: "Model_y_dist self t z = Inr (Bernoulli logits)" and ll: "length logits = ?n"
      by auto
    obtain yv g3 where yg: "draw_bernoulli be logits g2 = (yv, g3)"
      by (cases "draw_bernoulli be logits g2")
    have td: "dist_sample be (Model_t_dist self z) g1 = (Vec t, g2)"
      unfolding Model_t_dist_def by (rule dist_sample_Bernoulli [OF tg])
    show ?thesis
      by (simp add: None Model_forward_def Let_def sc pyro_sample_no_handlers
            plate_expand_z_dist dz plate_expand_x_dist [OF lz] plate_expand_t_dist [OF lz]
            td yd plate_expand_Bernoulli [OF ll] dist_sample_Bernoulli [OF yg])
  next
    case (Some t)
    with len lz have lt: "length t = length z" by simp
    from Model_y_dist_length [OF lt, of self] lz obtain logits where
      yd: "Model_y_dist self t z = Inr (Bernoulli logits)" and ll: "length logits = ?n"
      by auto
    obtain yv g3 where yg: "draw_bernoulli be logits g1 = (yv, g3)"
      by (cases "draw_bernoulli be logits g1")
    show ?thesis
      by (simp add: Some Model_forward_def Let_def sc pyro_sample_no_handlers
            plate_expand_z_dist dz plate_expand_x_dist [OF lz] plate_expand_t_dist [OF lz]
            yd plate_expand_Bernoulli [OF ll] dist_sample_Bernoulli [OF yg])
  qed
qed

lemma Model_forward_intervened_total:
  assumes ne: "x \<noteq> []"
    and rz: "map_of tr0 ''z'' = Some s" and val: "site_value s = Mat z"
    and lz: "length z = length x"
    and ry: "map_of tr0 ''y'' = None"
  shows "\<exists>tr. Model_forward be \<lparr>replay_trace = tr0, do_data = [(''t'', Vec [c])]\<rparr>
                 self x None None None g =
               Inr (fst (dist_sample be
                           (Bernoulli (map (\<lambda>zi. if c \<noteq> 0 then p_y1_nn self zi
                                                 else p_y0_nn self zi) z)) g),
                    tr,
                    snd (dist_sample be
                           (Bernoulli (map (\<lambda>zi. if c \<noteq> 0 then p_y1_nn self zi
                                                 else p_y0_nn self zi) z)) g))"
proof -
  let ?n = "length x"
  let ?h = "\<lparr>replay_trace = tr0, do_data = [(''t'', Vec [c])]\<rparr>"
  let ?logits = "map (\<lambda>zi. if c \<noteq> 0 then p_y1_nn self zi else p_y0_nn self zi) z"
  from ne lz have zne: "z \<noteq> []" by auto
  have sc: "pyro_plate ?n ?n = Inr 1"
    using ne by (simp add: pyro_plate_def)
  have ndz: "map_of (do_data ?h) ''z'' = None" and ndx: "map_of (do_data ?h) ''x'' = None"
    and ndy: "map_of (do_data ?h) ''y'' = None"
    and dt: "map_of (do_data ?h) ''t'' = Some (Vec [c])"
    by simp_all
  have rz': "map_of (replay_trace ?h) ''z'' = Some s"
    and ry': "map_of (replay_trace ?h) ''y'' = None"
    by (simp_all add: rz ry)
  have ll: "length ?logits = ?n" by (simp add: lz)
  obtain r g' where ds: "dist_sample be (Bernoulli ?logits) g = (r, g')"
    by (cases "dist_sample be (Bernoulli ?logits) g")
  have py: "pyro_sample be ?h ?n 1 ''y'' (Bernoulli ?logits) None False (tr3, g) =
              Inr (r, tr3 @ [(''y'', make_site be 1 (Bernoulli ?logits) False r False)], g')"
    for tr3
    using pyro_sample_drawn [OF ndy ry' plate_expand_Bernoulli [OF ll], of be "(tr3, g)" r g' 1 False]
      ds by simp
  show ?thesis
    unfolding ds
    by (simp add: Model_forward_def Let_def sc val
          pyro_sample_replayed [OF ndz rz' plate_expand_z_dist]
          pyro_sample_observed [OF ndx plate_expand_x_dist [OF lz]]
          pyro_sample_do [OF dt plate_expand_t_dist [OF lz]]
          Model_y_dist_intervened [OF zne] py del: handlers.simps)
qed

text \<open>
  Claim C9. When the outcome y is supplied as an observation and no intervention is in
  force on the site y, \<^verbatim>\<open>Model.forward\<close> returns exactly that y. The call does return:
  for a minibatch with at least one row, a plate size other than zero, a treatment with
  one entry per row of x, no intervention, and z drawn with one row per row of its
  distribution or replayed from a trace that holds one row of z per row of x. When y
  is not supplied, the value returned is the value of the site y of the trace; without
  an intervention or a replayed value for y that site is not observed and its value was
  drawn from its distribution. Without handlers such a call returns, whether t is
  supplied or drawn; under the handlers of \<^verbatim>\<open>ite\<close>, which replay z and force t to a
  constant, it returns the draw from the Bernoulli whose logits are those of the head
  selected by the constant.
\<close>

theorem Model_forward_returns_y:
  "(map_of (do_data h) ''y'' = None
      \<and> Model_forward be h self x t_opt (Some y) size' g = Inr (r, tr, g') \<longrightarrow> r = Vec y)
   \<and> (x \<noteq> [] \<and> size' \<noteq> Some 0 \<and> length t = length x \<and> do_data h = []
        \<and> (\<forall>s. map_of (replay_trace h) ''z'' = Some s \<longrightarrow>
              (\<exists>z. site_value s = Mat z \<and> length z = length x))
        \<and> (\<forall>loc scale g0. length (fst (draw_normal be loc scale g0)) = length loc) \<longrightarrow>
        (\<exists>tr1 g1. Model_forward be h self x (Some t) (Some y) size' g = Inr (Vec y, tr1, g1)))
   \<and> (Model_forward be h self x t_opt None size' g = Inr (r', tr', g'') \<longrightarrow>
        (\<exists>sy g0. map_of tr' ''y'' = Some sy \<and> site_value sy = r'
           \<and> (map_of (do_data h) ''y'' = None \<and> map_of (replay_trace h) ''y'' = None \<longrightarrow>
                \<not> is_observed sy \<and> (r', g'') = dist_sample be (site_fn sy) g0)))
   \<and> (x \<noteq> [] \<and> size' \<noteq> Some 0 \<and> (\<forall>t. t_opt = Some t \<longrightarrow> length t = length x)
        \<and> (\<forall>loc scale g0. length (fst (draw_normal be loc scale g0)) = length loc)
        \<and> (\<forall>logits g0. length (fst (draw_bernoulli be logits g0)) = length logits) \<longrightarrow>
        (\<exists>r1 tr1 g1. Model_forward be no_handlers self x t_opt None size' g = Inr (r1, tr1, g1)))
   \<and> (x \<noteq> [] \<and> map_of tr0 ''z'' = Some s \<and> site_value s = Mat z \<and> length z = length x
        \<and> map_of tr0 ''y'' = None \<longrightarrow>
        (\<exists>tr1. Model_forward be \<lparr>replay_trace = tr0, do_data = [(''t'', Vec [c])]\<rparr>
                  self x None None None g =
                Inr (fst (dist_sample be
                            (Bernoulli (map (\<lambda>zi. if c \<noteq> 0 then p_y1_nn self zi
                                                  else p_y0_nn self zi) z)) g),
                     tr1,
                     snd (dist_sample be
                            (Bernoulli (map (\<lambda>zi. if c \<noteq> 0 then p_y1_nn self zi
                                                  else p_y0_nn self zi) z)) g))))"
proof (intro conjI impI)
  assume a: "map_of (do_data h) ''y'' = None
      \<and> Model_forward be h self x t_opt (Some y) size' g = Inr (r, tr, g')"
  then have "Model_forward be h self x t_opt (Some y) size' g = Inr (r, tr, g')" ..
  from Model_forward_last_site [OF this] a show "r = Vec y" by auto
next
  assume "x \<noteq> [] \<and> size' \<noteq> Some 0 \<and> length t = length x \<and> do_data h = []
        \<and> (\<forall>s. map_of (replay_trace h) ''z'' = Some s \<longrightarrow>
              (\<exists>z. site_value s = Mat z \<and> length z = length x))
        \<and> (\<forall>loc scale g0. length (fst (draw_normal be loc scale g0)) = length loc)"
  then show "\<exists>tr1 g1. Model_forward be h self x (Some t) (Some y) size' g
                        = Inr (Vec y, tr1, g1)"
    by (intro Model_forward_observed_total) simp_all
next
  assume "Model_forward be h self x t_opt None size' g = Inr (r', tr', g'')"
  from Model_forward_last_site [OF this]
  have "\<exists>sz sx st sy g3.
          tr' = [(''z'', sz), (''x'', sx), (''t'', st), (''y'', sy)] \<and> site_value sy = r'
          \<and> (map_of (do_data h) ''y'' = None \<longrightarrow> map_of (replay_trace h) ''y'' = None \<longrightarrow>
                \<not> is_observed sy \<and> (r', g'') = dist_sample be (site_fn sy) g3)"
    by simp
  then obtain sz sx st sy g3 where
    tr: "tr' = [(''z'', sz), (''x'', sx), (''t'', st), (''y'', sy)]"
    and sy: "site_value sy = r'"
      "map_of (do_data h) ''y'' = None \<longrightarrow> map_of (replay_trace h) ''y'' = None \<longrightarrow>
         \<not> is_observed sy \<and> (r', g'') = dist_sample be (site_fn sy) g3"
    by (elim exE conjE) (rule that, assumption+)
  from tr have "map_of tr' ''y'' = Some sy" by simp
  with sy show "\<exists>sy g0. map_of tr' ''y'' = Some sy \<and> site_value sy = r'
           \<and> (map_of (do_data h) ''y'' = None \<and> map_of (replay_trace h) ''y'' = None \<longrightarrow>
                \<not> is_observed sy \<and> (r', g'') = dist_sample be (site_fn sy) g0)"
    by (intro exI [of _ sy] exI [of _ g3]) simp
next
  assume "x \<noteq> [] \<and> size' \<noteq> Some 0 \<and> (\<forall>t. t_opt = Some t \<longrightarrow> length t = length x)
        \<and> (\<forall>loc scale g0. length (fst (draw_normal be loc scale g0)) = length loc)
        \<and> (\<forall>logits g0. length (fst (draw_bernoulli be logits g0)) = length logits)"
  then show "\<exists>r1 tr1 g1. Model_forward be no_handlers self x t_opt None size' g
                           = Inr (r1, tr1, g1)"
    by (intro Model_forward_unobserved_total) simp_all
next
  assume "x \<noteq> [] \<and> map_of tr0 ''z'' = Some s \<and> site_value s = Mat z \<and> length z = length x
        \<and> map_of tr0 ''y'' = None"
  then have "x \<noteq> []" "map_of tr0 ''z'' = Some s" "site_value s = Mat z" "length z = length x"
    "map_of tr0 ''y'' = None"
    by simp_all
  then show "\<exists>tr1. Model_forward be \<lparr>replay_trace = tr0, do_data = [(''t'', Vec [c])]\<rparr>
                  self x None None None g =
                Inr (fst (dist_sample be
                            (Bernoulli (map (\<lambda>zi. if c \<noteq> 0 then p_y1_nn self zi
                                                  else p_y0_nn self zi) z)) g),
                     tr1,
                     snd (dist_sample be
                            (Bernoulli (map (\<lambda>zi. if c \<noteq> 0 then p_y1_nn self zi
                                                  else p_y0_nn self zi) z)) g))"
    by (rule Model_forward_intervened_total)
qed

theorem Model_forward_returns_y_witness:
  "(\<exists>tr. Model_forward
        \<lparr>manual_seed = (\<lambda>k. k), draw_normal = (\<lambda>loc scale g. (loc, g + 1)),
         draw_bernoulli = (\<lambda>logits g. (map (\<lambda>l. if 0 < l then 1 else 0) logits, g + 1)),
         log_prob = (\<lambda>d v. case d of Normal loc scale \<Rightarrow> [- 3] | Bernoulli logits \<Rightarrow> [- 1])\<rparr>
        no_handlers
        \<lparr>p_latent_dim = 2, p_x_nn = (\<lambda>r. [0, 25]), p_y0_nn = (\<lambda>r. - 1), p_y1_nn = (\<lambda>r. 1),
         p_t_nn = (\<lambda>r. 0)\<rparr>
        [[2]] (Some [1]) (Some [0]) None (0 :: int) = Inr (Vec [0], tr, 1))
   \<and> (\<exists>tr sy. Model_forward
        \<lparr>manual_seed = (\<lambda>k. k), draw_normal = (\<lambda>loc scale g. (loc, g + 1)),
         draw_bernoulli = (\<lambda>logits g. (map (\<lambda>l. if 0 < l then 1 else 0) logits, g + 1)),
         log_prob = (\<lambda>d v. case d of Normal loc scale \<Rightarrow> [- 3] | Bernoulli logits \<Rightarrow> [- 1])\<rparr>
        no_handlers
        \<lparr>p_latent_dim = 2, p_x_nn = (\<lambda>r. [0, 25]), p_y0_nn = (\<lambda>r. - 1), p_y1_nn = (\<lambda>r. 1),
         p_t_nn = (\<lambda>r. 0)\<rparr>
        [[2]] None None None (0 :: int) = Inr (Vec [0], tr, 3)
      \<and> map_of tr ''y'' = Some sy \<and> \<not> is_observed sy \<and> site_value sy = Vec [0])
   \<and> (\<exists>tr. Model_forward
        \<lparr>manual_seed = (\<lambda>k. k), draw_normal = (\<lambda>loc scale g. (loc, g + 1)),
         draw_bernoulli = (\<lambda>logits g. (map (\<lambda>l. if 0 < l then 1 else 0) logits, g + 1)),
         log_prob = (\<lambda>d v. case d of Normal loc scale \<Rightarrow> [- 3] | Bernoulli logits \<Rightarrow> [- 1])\<rparr>
        \<lparr>replay_trace =
           [(''z'', \<lparr>site_type = ''sample'', site_fn = Normal [[0, 0]] [[25, 25]],
                     is_observed = False, site_value = Mat [[5, 7]], is_auxiliary = False,
                     log_prob_sum = Scalar (- 3)\<rparr>)],
         do_data = [(''t'', Vec [1])]\<rparr>
        \<lparr>p_latent_dim = 2, p_x_nn = (\<lambda>r. [0, 25]), p_y0_nn = (\<lambda>r. - 1), p_y1_nn = (\<lambda>r. 1),
         p_t_nn = (\<lambda>r. 0)\<rparr>
        [[2]] None None None (0 :: int) = Inr (Vec [1], tr, 1))"
proof -
  let ?be = "\<lparr>manual_seed = (\<lambda>k. k), draw_normal = (\<lambda>loc scale g. (loc, g + 1)),
         draw_bernoulli = (\<lambda>logits g. (map (\<lambda>l. if 0 < l then 1 else 0) logits, g + 1)),
         log_prob = (\<lambda>d v. case d of Normal loc scale \<Rightarrow> [- 3] | Bernoulli logits \<Rightarrow> [- 1])\<rparr>
         :: int backend"
  let ?m = "\<lparr>p_latent_dim = 2, p_x_nn = (\<lambda>r. [0, 25]), p_y0_nn = (\<lambda>r. - 1),
             p_y1_nn = (\<lambda>r. 1), p_t_nn = (\<lambda>r. 0)\<rparr>"
  let ?sz = "\<lparr>site_type = ''sample'', site_fn = Normal [[0, 0]] [[25, 25]],
              is_observed = False, site_value = Mat [[5, 7]], is_auxiliary = False,
              log_prob_sum = Scalar (- 3)\<rparr>"
  have ne: "[[2 :: real]] \<noteq> []" and sz: "(None :: nat option) \<noteq> Some 0"
    and len: "length [1 :: real] = length [[2 :: real]]"
    and nodo: "do_data no_handlers = []"
    and rep: "\<forall>s. map_of (replay_trace no_handlers) ''z'' = Some s \<longrightarrow>
                (\<exists>z. site_value s = Mat z \<and> length z = length [[2 :: real]])"
    and draw: "\<forall>loc scale g0. length (fst (draw_normal ?be loc scale g0)) = length loc"
    and drawb: "\<forall>logits g0. length (fst (draw_bernoulli ?be logits g0)) = length logits"
    by (simp_all add: no_handlers_def)
  have ndy: "map_of (do_data no_handlers) ''y'' = None"
    and nry: "map_of (replay_trace no_handlers) ''y'' = None"
    by (simp_all add: no_handlers_def)
  from Model_forward_returns_y [where be = ?be and self = ?m and x = "[[2]]"
      and size' = None and g = 0 and h = no_handlers and y = "[0]" and t = "[1]"
      and tr0 = "[(''z'', ?sz)]" and s = ?sz and z = "[[5, 7]]" and c = 1
      and t_opt = "Some [1]"] ne sz len nodo rep draw
  obtain tr1 g1 where
    r1: "Model_forward ?be no_handlers ?m [[2]] (Some [1]) (Some [0]) None 0
           = Inr (Vec [0], tr1, g1)"
    by blast
  have yd1: "Model_y_dist ?m [1] [[0, 0]] = Inr (Bernoulli [1])"
    by (simp add: Model_y_dist_def BernoulliNet_forward_def torch_where_def broadcast_len_def
          expand_to_def to_bool_def Let_def)
  have "\<exists>tr. Model_forward ?be no_handlers ?m [[2]] (Some [1]) (Some [0]) None 0
               = Inr (Vec [0], tr, 1)"
    using yd1
    by (simp add: Model_forward_def pyro_sample_def plate_expand_def no_handlers_def
          expand_rows_def pyro_plate_def dist_sample_def Model_z_dist_def Model_x_dist_def
          Model_t_dist_def DiagNormalNet_forward_def DiagNormalNet_forward_row_def
          BernoulliNet_forward_def make_site_def numeral_2_eq_2 Let_def)
  then obtain trA where
    rA: "Model_forward ?be no_handlers ?m [[2]] (Some [1]) (Some [0]) None 0
           = Inr (Vec [0], trA, 1)"
    by blast
  from Model_forward_returns_y [where be = ?be and self = ?m and x = "[[2]]"
      and size' = None and g = 0 and h = no_handlers and y = "[0]" and t = "[1]"
      and tr0 = "[(''z'', ?sz)]" and s = ?sz and z = "[[5, 7]]" and c = 1
      and t_opt = "Some [1]" and r = "Vec [0]" and tr = trA and g' = 1] ndy rA
  have "Vec [0 :: real] = Vec [0]" by blast
  have yd0: "Model_y_dist ?m [0] [[0, 0]] = Inr (Bernoulli [- 1])"
    by (simp add: Model_y_dist_def BernoulliNet_forward_def torch_where_def broadcast_len_def
          expand_to_def to_bool_def Let_def)
  have "\<exists>tr. Model_forward ?be no_handlers ?m [[2]] None None None 0 = Inr (Vec [0], tr, 3)"
    using yd0
    by (simp add: Model_forward_def pyro_sample_def plate_expand_def no_handlers_def
          expand_rows_def pyro_plate_def dist_sample_def Model_z_dist_def Model_x_dist_def
          Model_t_dist_def DiagNormalNet_forward_def DiagNormalNet_forward_row_def
          BernoulliNet_forward_def make_site_def numeral_2_eq_2 Let_def)
  then obtain trB where
    rB: "Model_forward ?be no_handlers ?m [[2]] None None None 0 = Inr (Vec [0], trB, 3)"
    by blast
  from Model_forward_returns_y [where be = ?be and self = ?m and x = "[[2]]"
      and size' = None and g = 0 and h = no_handlers and y = "[0]" and t = "[1]"
      and tr0 = "[(''z'', ?sz)]" and s = ?sz and z = "[[5, 7]]" and c = 1
      and t_opt = None and r' = "Vec [0]" and tr' = trB and g'' = 3] rB ndy nry
  obtain sy where sy: "map_of trB ''y'' = Some sy" "site_value sy = Vec [0]"
    "\<not> is_observed sy"
    by blast
  from Model_forward_returns_y [where be = ?be and self = ?m and x = "[[2]]"
      and size' = None and g = 0 and h = no_handlers and y = "[0]" and t = "[1]"
      and tr0 = "[(''z'', ?sz)]" and s = ?sz and z = "[[5, 7]]" and c = 1
      and t_opt = None] ne sz draw drawb
  obtain r3 tr3 g3 where
    "Model_forward ?be no_handlers ?m [[2]] None None None 0 = Inr (r3, tr3, g3)"
    by blast
  have hyp: "[[2 :: real]] \<noteq> [] \<and> map_of [(''z'', ?sz)] ''z'' = Some ?sz
               \<and> site_value ?sz = Mat [[5, 7]] \<and> length [[5, 7 :: real]] = length [[2 :: real]]
               \<and> map_of [(''z'', ?sz)] ''y'' = None"
    by simp
  from Model_forward_returns_y [where be = ?be and self = ?m and x = "[[2]]"
      and size' = None and g = 0 and h = no_handlers and y = "[0]" and t = "[1]"
      and tr0 = "[(''z'', ?sz)]" and s = ?sz and z = "[[5, 7]]" and c = 1
      and t_opt = None] hyp
  have "\<exists>tr. Model_forward ?be \<lparr>replay_trace = [(''z'', ?sz)], do_data = [(''t'', Vec [1])]\<rparr>
               ?m [[2]] None None None 0 = Inr (Vec [1], tr, 1)"
    by (simp add: dist_sample_def)
  with rA rB sy show ?thesis by blast
qed

subsection \<open>Antisymmetry of the effect estimate\<close>









end
